theory Spec2Isabelle
  imports Main "HOL-Library.AList"
begin

section \<open>Python values\<close>

text \<open>
  Payloads, recommendation results and worker outcomes are \<^verbatim>\<open>Dict[str, Any]\<close>.
  A value is one of the JSON shapes; a dict is an association list read with
  \<open>dict_get\<close>, which is \<^verbatim>\<open>d.get(key, default)\<close>. JSON numbers with a fraction are
  not represented.
\<close>

datatype pyval =
    PNone
  | PBool bool
  | PInt int
  | PStr string
  | PList "pyval list"
  | PDict "(string \<times> pyval) list"

type_synonym pydict = "(string \<times> pyval) list"

definition dict_get :: "pydict \<Rightarrow> string \<Rightarrow> pyval \<Rightarrow> pyval" where
  "dict_get d k dflt = (case map_of d k of None \<Rightarrow> dflt | Some v \<Rightarrow> v)"

text \<open>
  The exceptions that leave the modelled functions: FastAPI's \<open>HTTPException\<close> (status,
  detail), the \<open>ValueError\<close> of a missing API key, sqlite3 refusing to bind a
  parameter, \<^verbatim>\<open>.get\<close> called on a value that is not a dict, and pydantic rejecting a
  field value.
\<close>

datatype error =
    HTTPException nat string
  | ValueError string
  | SqliteError
  | AttributeError
  | ValidationError

section \<open>nanda\_hub.py\<close>

record AgentRegistration =
  agent_id :: string
  agent_type :: string
  display_name :: string
  personality_summary :: string

record A2AMessage =
  message_id :: string
  from_agent_id :: string
  to_agent_id :: string
  payload :: pydict

text \<open>
  \<open>agents\<close> keeps Python's insertion order (\<open>list_agents\<close> reads it), \<open>inboxes\<close> is
  only read and written by key. \<^verbatim>\<open>uuid.uuid4()\<close> is a draw from a source the hub does
  not control: \<open>uuid4_source\<close> is the sequence of values it will return and
  \<open>uuid4_drawn\<close> counts the draws made so far. Nothing is assumed about the source.
\<close>

record NandaHub =
  agents :: "(string \<times> AgentRegistration) list"
  inboxes :: "string \<rightharpoonup> A2AMessage list"
  uuid4_source :: "nat \<Rightarrow> string"
  uuid4_drawn :: nat

definition register_agent ::
  "string \<Rightarrow> string \<Rightarrow> string \<Rightarrow> string \<Rightarrow> NandaHub \<Rightarrow> AgentRegistration \<times> NandaHub" where
  "register_agent aid atype dname psummary h =
     (let reg = \<lparr>agent_id = aid, agent_type = atype, display_name = dname,
                 personality_summary = psummary\<rparr>;
          h1 = h\<lparr>agents := AList.update aid reg (agents h)\<rparr>;
          h2 = (if inboxes h1 aid = None then h1\<lparr>inboxes := (inboxes h1)(aid \<mapsto> [])\<rparr> else h1)
      in (reg, h2))"

definition get_agent :: "string \<Rightarrow> NandaHub \<Rightarrow> AgentRegistration option" where
  "get_agent aid h = map_of (agents h) aid"

definition list_agents :: "NandaHub \<Rightarrow> AgentRegistration list" where
  "list_agents h = map snd (agents h)"

text \<open>\<^verbatim>\<open>self.inboxes.get(agent_id, [])\<close>\<close>

definition inbox_of :: "NandaHub \<Rightarrow> string \<Rightarrow> A2AMessage list" where
  "inbox_of h aid = (case inboxes h aid of None \<Rightarrow> [] | Some msgs \<Rightarrow> msgs)"

definition send_message ::
  "string \<Rightarrow> string \<Rightarrow> pydict \<Rightarrow> NandaHub \<Rightarrow> A2AMessage \<times> NandaHub" where
  "send_message from_id to_id pl h =
     (let h1 = (if inboxes h to_id = None then h\<lparr>inboxes := (inboxes h)(to_id \<mapsto> [])\<rparr> else h);
          msg = \<lparr>message_id = uuid4_source h1 (uuid4_drawn h1), from_agent_id = from_id,
                 to_agent_id = to_id, payload = pl\<rparr>;
          h2 = h1\<lparr>uuid4_drawn := Suc (uuid4_drawn h1)\<rparr>
      in (msg, h2\<lparr>inboxes := (inboxes h2)(to_id \<mapsto> inbox_of h2 to_id @ [msg])\<rparr>))"

definition get_inbox :: "string \<Rightarrow> bool \<Rightarrow> NandaHub \<Rightarrow> A2AMessage list \<times> NandaHub" where
  "get_inbox aid clear h =
     (let msgs = inbox_of h aid
      in (msgs, if clear then h\<lparr>inboxes := (inboxes h)(aid \<mapsto> [])\<rparr> else h))"

text \<open>A run of \<open>send_message\<close> calls, each given as (from, to, payload); the messages
  the calls returned come back in call order.\<close>

fun send_messages ::
  "(string \<times> string \<times> pydict) list \<Rightarrow> NandaHub \<Rightarrow> A2AMessage list \<times> NandaHub" where
  "send_messages [] h = ([], h)"
| "send_messages ((from_id, to_id, pl) # calls) h =
     (let (msg, h1) = send_message from_id to_id pl h;
          (msgs, h2) = send_messages calls h1
      in (msg # msgs, h2))"

section \<open>api\_server\_llm\_a2a\_auto\_db\_ec2.py: the SQLite store\<close>

record Experience =
  exp_name :: string
  exp_notes :: string
  exp_rating :: int

text \<open>The dict built by \<open>db_load_profile\<close>: keys name, personality, values, experiences.\<close>

record Profile =
  prof_name :: string
  prof_personality :: string
  prof_values :: string
  prof_experiences :: "Experience list"

text \<open>
  The three tables, as lists of rows in the order a scan returns them:
  agents (agent\_id, agent\_type, display\_name, personality\_summary),
  profiles (user\_id, name, personality, values\_text) and
  experiences (user\_id, name, notes, rating).
  A query parameter that is a Python \<^verbatim>\<open>str\<close> is compared as that text. What the
  sqlite3 module does with any other value is left open in \<open>sqlite_adapt\<close>: \<open>Inl\<close>
  when it refuses to bind the value, \<open>Inr None\<close> when the bound value equals no text,
  \<open>Inr (Some s)\<close> when it compares equal to the text \<open>s\<close>.
\<close>

record Database =
  agents_table :: "(string \<times> string \<times> string \<times> string) list"
  profiles_table :: "(string \<times> string \<times> string \<times> string) list"
  experiences_table :: "(string \<times> string \<times> string \<times> int) list"
  sqlite_adapt :: "pyval \<Rightarrow> error + string option"

definition sqlite_bind :: "Database \<Rightarrow> pyval \<Rightarrow> error + string option" where
  "sqlite_bind d v = (case v of PStr s \<Rightarrow> Inr (Some s) | _ \<Rightarrow> sqlite_adapt d v)"

definition db_load_profile :: "Database \<Rightarrow> pyval \<Rightarrow> error + Profile option" where
  "db_load_profile d user_id =
     (case sqlite_bind d user_id of
        Inl e \<Rightarrow> Inl e
      | Inr k \<Rightarrow>
         (case filter (\<lambda>r. Some (fst r) = k) (profiles_table d) of
            [] \<Rightarrow> Inr None
          | (uid, nm, pers, vals) # _ \<Rightarrow>
              Inr (Some \<lparr>prof_name = nm, prof_personality = pers, prof_values = vals,
                         prof_experiences =
                           map (\<lambda>(u, n, notes, rating).
                                  \<lparr>exp_name = n, exp_notes = notes, exp_rating = rating\<rparr>)
                               (filter (\<lambda>e. Some (fst e) = k) (experiences_table d))\<rparr>)))"

text \<open>The join of agents and profiles; SQL fixes no row order, and no theorem below
  depends on the one chosen here (agents outermost).\<close>

definition db_list_helper_agent_ids :: "Database \<Rightarrow> string \<Rightarrow> string list" where
  "db_list_helper_agent_ids d base_user_id =
     [aid. (aid, atype, dname, psummary) \<leftarrow> agents_table d,
           (uid, nm, pers, vals) \<leftarrow> profiles_table d,
           aid = uid, atype = ''freigent'', aid \<noteq> base_user_id]"

section \<open>The process around the hub\<close>

text \<open>
  Everything the two functions below read or change: the hub singleton, the database,
  the \<open>FREIGENTS\<close> cache (its keys), the \<^verbatim>\<open>ANTHROPIC_API_KEY\<close> environment
  variable, and the language model behind \<open>generate_recommendations_json\<close>. The model
  is an opaque call: \<open>llm_reply\<close> gives what the \<open>n\<close>-th call returns for a profile and
  a query, \<open>llm_calls\<close> records the calls made. \<open>py_str_other\<close> is Python's \<^verbatim>\<open>str()\<close>
  on values that are not strings, used where an f-string renders a payload value.
\<close>

record World =
  hub :: NandaHub
  db :: Database
  FREIGENTS :: "string list"
  anthropic_api_key :: "string option"
  llm_reply :: "nat \<Rightarrow> Profile \<Rightarrow> pyval \<Rightarrow> pyval"
  llm_calls :: "(string \<times> Profile \<times> pyval) list"
  py_str_other :: "pyval \<Rightarrow> string"

definition py_str :: "World \<Rightarrow> pyval \<Rightarrow> string" where
  "py_str w v = (case v of PStr s \<Rightarrow> s | _ \<Rightarrow> py_str_other w v)"

text \<open>\<^verbatim>\<open>RealJsonFreigent.__init__\<close> raises ValueError when the key is unset or empty.\<close>

definition get_or_create_freigent :: "string \<Rightarrow> World \<Rightarrow> (error + unit) \<times> World" where
  "get_or_create_freigent user_id w =
     (if user_id \<in> set (FREIGENTS w) then (Inr (), w)
      else if anthropic_api_key w = None \<or> anthropic_api_key w = Some []
      then (Inl (ValueError ''ANTHROPIC_API_KEY is not set in environment/.env''), w)
      else (Inr (), w\<lparr>FREIGENTS := FREIGENTS w @ [user_id]\<rparr>))"

text \<open>
  \<open>generate_recommendations_json\<close> catches every exception of the call and of the JSON
  parsing and returns a fallback instead, so it always returns a value.
\<close>

definition generate_recommendations_json ::
  "string \<Rightarrow> Profile \<Rightarrow> pyval \<Rightarrow> World \<Rightarrow> pyval \<times> World" where
  "generate_recommendations_json agent user_profile query w =
     (llm_reply w (length (llm_calls w)) user_profile query,
      w\<lparr>llm_calls := llm_calls w @ [(agent, user_profile, query)]\<rparr>)"

text \<open>\<^verbatim>\<open>hub.send_message(...)\<close> as a statement: the returned message is not used.\<close>

definition hub_send_message :: "string \<Rightarrow> string \<Rightarrow> pydict \<Rightarrow> World \<Rightarrow> World" where
  "hub_send_message from_id to_id pl w = w\<lparr>hub := snd (send_message from_id to_id pl (hub w))\<rparr>"

section \<open>The worker\<close>

text \<open>\<^verbatim>\<open>msgs[:n]\<close>: a negative \<open>n\<close> counts from the end.\<close>

definition py_slice_to :: "int \<Rightarrow> 'a list \<Rightarrow> 'a list" where
  "py_slice_to n xs = (if 0 \<le> n then take (nat n) xs else take (nat (int (length xs) + n)) xs)"

definition ignored_outcome :: "World \<Rightarrow> A2AMessage \<Rightarrow> pydict" where
  "ignored_outcome w m =
     [(''request_message_id'', PStr (message_id m)),
      (''status'', PStr ''ignored''),
      (''reason'', PStr (''Unsupported payload.type '' @ [CHR 39]
                         @ py_str w (dict_get (payload m) ''type'' PNone) @ [CHR 39]))]"

definition error_text :: "World \<Rightarrow> pyval \<Rightarrow> string" where
  "error_text w profile_user_id =
     ''No profile found for user_id '' @ [CHR 39] @ py_str w profile_user_id @ [CHR 39]"

definition error_payload :: "World \<Rightarrow> A2AMessage \<Rightarrow> pyval \<Rightarrow> pydict" where
  "error_payload w m profile_user_id =
     [(''type'', PStr ''recommendation_error''),
      (''reason'', PStr (error_text w profile_user_id)),
      (''original_message_id'', PStr (message_id m))]"

definition error_outcome :: "World \<Rightarrow> A2AMessage \<Rightarrow> pyval \<Rightarrow> pydict" where
  "error_outcome w m profile_user_id =
     [(''request_message_id'', PStr (message_id m)),
      (''status'', PStr ''error''),
      (''error'', PStr (error_text w profile_user_id))]"

definition reply_payload :: "A2AMessage \<Rightarrow> pyval \<Rightarrow> pyval \<Rightarrow> pyval \<Rightarrow> pydict" where
  "reply_payload m query profile_user_id result =
     [(''type'', PStr ''recommendation_response''),
      (''original_message_id'', PStr (message_id m)),
      (''query'', query),
      (''profile_user_id'', profile_user_id),
      (''result'', result)]"

definition ok_outcome :: "A2AMessage \<Rightarrow> pydict" where
  "ok_outcome m =
     [(''request_message_id'', PStr (message_id m)),
      (''status'', PStr ''ok''),
      (''sent_to'', PStr (from_agent_id m))]"

text \<open>The \<^verbatim>\<open>for m in msgs[:max_messages]\<close> loop, with \<open>processed\<close> as accumulator.\<close>

fun process_messages ::
  "string \<Rightarrow> A2AMessage list \<Rightarrow> pydict list \<Rightarrow> World \<Rightarrow> (error + pydict list) \<times> World" where
  "process_messages worker_id [] processed w = (Inr processed, w)"
| "process_messages worker_id (m # ms) processed w =
     (if dict_get (payload m) ''type'' PNone \<noteq> PStr ''recommendation_request''
      then process_messages worker_id ms (processed @ [ignored_outcome w m]) w
      else
        let from_agent = from_agent_id m;
            query = dict_get (payload m) ''query'' (PStr []);
            profile_user_id = dict_get (payload m) ''from_user_id'' (PStr from_agent)
        in case db_load_profile (db w) profile_user_id of
             Inl e \<Rightarrow> (Inl e, w)
           | Inr None \<Rightarrow>
               process_messages worker_id ms
                 (processed @ [error_outcome w m profile_user_id])
                 (hub_send_message worker_id from_agent (error_payload w m profile_user_id) w)
           | Inr (Some profile) \<Rightarrow>
               (let (result, w1) = generate_recommendations_json worker_id profile query w
                in process_messages worker_id ms
                     (processed @ [ok_outcome m])
                     (hub_send_message worker_id from_agent
                        (reply_payload m query profile_user_id result) w1)))"

definition process_recommendation_requests_for_agent ::
  "string \<Rightarrow> int \<Rightarrow> World \<Rightarrow> (error + pydict list) \<times> World" where
  "process_recommendation_requests_for_agent worker_id max_messages w =
     (case get_or_create_freigent worker_id w of
        (Inl e, w1) \<Rightarrow> (Inl e, w1)
      | (Inr u, w1) \<Rightarrow>
          (let (msgs, h) = get_inbox worker_id True (hub w1)
           in process_messages worker_id (py_slice_to max_messages msgs) [] (w1\<lparr>hub := h\<rparr>)))"

section \<open>The orchestrator\<close>

record HelperResult =
  hr_agent_id :: string
  hr_result :: pydict

record AutoSearchResponse =
  base_agent_id :: string
  helper_agent_ids :: "string list"
  base_result :: pydict
  helper_results :: "HelperResult list"
  merged_products :: "pyval list"
  merged_summary_for_user :: string

text \<open>The decimal digits of a length, as the f-string of the summary renders it.\<close>

fun str_of_nat :: "nat \<Rightarrow> string" where
  "str_of_nat n =
     (if n < 10 then [char_of (48 + n)] else str_of_nat (n div 10) @ [char_of (48 + n mod 10)])"

declare str_of_nat.simps [simp del]

text \<open>\<^verbatim>\<open>sep.join(parts)\<close>\<close>

fun str_join :: "string \<Rightarrow> string list \<Rightarrow> string" where
  "str_join sep [] = []"
| "str_join sep [s] = s"
| "str_join sep (s # t # ss) = s @ sep @ str_join sep (t # ss)"

definition no_profile_detail :: "string \<Rightarrow> string" where
  "no_profile_detail user_id =
     ''No profile stored for user_id '' @ [CHR 39] @ user_id @ [CHR 39]
     @ ''. Call POST /freigent/'' @ user_id @ ''/profile first.''"

text \<open>Step 2, second half: register every helper whose profile still loads.\<close>

fun register_helpers :: "string list \<Rightarrow> World \<Rightarrow> (error + unit) \<times> World" where
  "register_helpers [] w = (Inr (), w)"
| "register_helpers (hid # hids) w =
     (case db_load_profile (db w) (PStr hid) of
        Inl e \<Rightarrow> (Inl e, w)
      | Inr None \<Rightarrow> register_helpers hids w
      | Inr (Some prof) \<Rightarrow>
          register_helpers hids
            (w\<lparr>hub := snd (register_agent hid ''freigent'' (prof_name prof)
                              (prof_personality prof) (hub w))\<rparr>))"

definition request_payload :: "string \<Rightarrow> string \<Rightarrow> pydict" where
  "request_payload user_id query =
     [(''type'', PStr ''recommendation_request''),
      (''from_user_id'', PStr user_id),
      (''query'', PStr query)]"

text \<open>Step 3: one request to every helper.\<close>

fun send_requests :: "string \<Rightarrow> string \<Rightarrow> string list \<Rightarrow> World \<Rightarrow> World" where
  "send_requests user_id query [] w = w"
| "send_requests user_id query (helper_id # hids) w =
     send_requests user_id query hids
       (hub_send_message user_id helper_id (request_payload user_id query) w)"

text \<open>Step 4: one worker pass for every helper, cap 10.\<close>

fun process_helpers :: "string list \<Rightarrow> World \<Rightarrow> (error + unit) \<times> World" where
  "process_helpers [] w = (Inr (), w)"
| "process_helpers (helper_id # hids) w =
     (case process_recommendation_requests_for_agent helper_id 10 w of
        (Inl e, w1) \<Rightarrow> (Inl e, w1)
      | (Inr outcomes, w1) \<Rightarrow> process_helpers hids w1)"

text \<open>\<^verbatim>\<open>d.get("products", [])\<close> when it is a list, as both merge sites test it.\<close>

definition product_list :: "pydict \<Rightarrow> pyval list" where
  "product_list d = (case dict_get d ''products'' (PList []) of PList ps \<Rightarrow> ps | _ \<Rightarrow> [])"

text \<open>Step 5, the loop over \<open>incoming\<close>. \<open>HelperResult\<close> accepts only a dict as result.\<close>

fun collect_responses ::
  "A2AMessage list \<Rightarrow> HelperResult list \<Rightarrow> pyval list
     \<Rightarrow> error + (HelperResult list \<times> pyval list)" where
  "collect_responses [] hrs merged = Inr (hrs, merged)"
| "collect_responses (msg # msgs) hrs merged =
     (if dict_get (payload msg) ''type'' PNone \<noteq> PStr ''recommendation_response''
      then collect_responses msgs hrs merged
      else case dict_get (payload msg) ''result'' (PDict []) of
             PDict result \<Rightarrow>
               collect_responses msgs
                 (hrs @ [\<lparr>hr_agent_id = from_agent_id msg, hr_result = result\<rparr>])
                 (merged @ product_list result)
           | _ \<Rightarrow> Inl ValidationError)"

definition is_dict :: "pyval \<Rightarrow> bool" where
  "is_dict v = (case v of PDict d \<Rightarrow> True | _ \<Rightarrow> False)"

definition merged_summary :: "string \<Rightarrow> nat \<Rightarrow> string list \<Rightarrow> string" where
  "merged_summary user_id helper_count helper_ids =
     ''This response combines the base Freigent '' @ [CHR 39] @ user_id @ [CHR 39]
     @ '' recommendations with '' @ str_of_nat helper_count @ '' helper Freigent(s): ''
     @ (if helper_ids \<noteq> [] then str_join '', '' helper_ids else ''none'') @ ''.''"

text \<open>
  Steps 5 and 6: drain the base inbox, merge, build the response.
  \<^verbatim>\<open>base_result.get\<close> needs a dict; \<open>AutoSearchResponse\<close> accepts only dicts in
  \<open>merged_products\<close>.
\<close>

definition read_responses ::
  "string \<Rightarrow> string list \<Rightarrow> pyval \<Rightarrow> World \<Rightarrow> (error + AutoSearchResponse) \<times> World" where
  "read_responses user_id helper_ids base_res w =
     (let (incoming, h) = get_inbox user_id True (hub w);
          w1 = w\<lparr>hub := h\<rparr>
      in case base_res of
           PDict base \<Rightarrow>
             (case collect_responses incoming [] (product_list base) of
                Inl e \<Rightarrow> (Inl e, w1)
              | Inr (hrs, merged) \<Rightarrow>
                  if list_all is_dict merged
                  then (Inr \<lparr>base_agent_id = user_id, helper_agent_ids = helper_ids,
                              base_result = base, helper_results = hrs,
                              merged_products = merged,
                              merged_summary_for_user =
                                merged_summary user_id (length hrs) helper_ids\<rparr>, w1)
                  else (Inl ValidationError, w1))
         | _ \<Rightarrow> (Inl AttributeError, w1))"

definition freigent_auto_search ::
  "string \<Rightarrow> string \<Rightarrow> World \<Rightarrow> (error + AutoSearchResponse) \<times> World" where
  "freigent_auto_search user_id query w =
     (case db_load_profile (db w) (PStr user_id) of
        Inl e \<Rightarrow> (Inl e, w)
      | Inr None \<Rightarrow> (Inl (HTTPException 400 (no_profile_detail user_id)), w)
      | Inr (Some profile) \<Rightarrow>
          (case get_or_create_freigent user_id w of
             (Inl e, w1) \<Rightarrow> (Inl e, w1)
           | (Inr u, w1) \<Rightarrow>
               (let (base_res, w2) =
                      generate_recommendations_json user_id profile (PStr query) w1;
                    helper_ids = db_list_helper_agent_ids (db w2) user_id
                in case register_helpers helper_ids w2 of
                     (Inl e, w3) \<Rightarrow> (Inl e, w3)
                   | (Inr u, w3) \<Rightarrow>
                       (case process_helpers helper_ids
                               (send_requests user_id query helper_ids w3) of
                          (Inl e, w5) \<Rightarrow> (Inl e, w5)
                        | (Inr u, w5) \<Rightarrow> read_responses user_id helper_ids base_res w5))))"

section \<open>Auxiliary definitions for the statements\<close>

text \<open>The test the worker applies to a message, and a world whose hub holds a given
  mailbox for one agent.\<close>

definition is_request :: "A2AMessage \<Rightarrow> bool" where
  "is_request m = (dict_get (payload m) ''type'' PNone = PStr ''recommendation_request'')"

definition set_inbox :: "string \<Rightarrow> A2AMessage list \<Rightarrow> World \<Rightarrow> World" where
  "set_inbox aid msgs w = w\<lparr>hub := (hub w)\<lparr>inboxes := (inboxes (hub w))(aid \<mapsto> msgs)\<rparr>\<rparr>"

text \<open>
  Two prefixes of \<open>freigent_auto_search\<close>, to speak about the world in the middle of a
  run: \<open>run_to_fan_out\<close> is steps 1 to 3 (every request sent, no worker started yet)
  and \<open>run_to_dispatch\<close> adds step 4 (every worker pass done, base inbox not yet read).
  Both return the base result and the helper ids found.
\<close>

definition run_to_fan_out ::
  "string \<Rightarrow> string \<Rightarrow> World \<Rightarrow> (error + pyval \<times> string list) \<times> World" where
  "run_to_fan_out user_id query w =
     (case db_load_profile (db w) (PStr user_id) of
        Inl e \<Rightarrow> (Inl e, w)
      | Inr None \<Rightarrow> (Inl (HTTPException 400 (no_profile_detail user_id)), w)
      | Inr (Some profile) \<Rightarrow>
          (case get_or_create_freigent user_id w of
             (Inl e, w1) \<Rightarrow> (Inl e, w1)
           | (Inr u, w1) \<Rightarrow>
               (let (base_res, w2) =
                      generate_recommendations_json user_id profile (PStr query) w1;
                    helper_ids = db_list_helper_agent_ids (db w2) user_id
                in case register_helpers helper_ids w2 of
                     (Inl e, w3) \<Rightarrow> (Inl e, w3)
                   | (Inr u, w3) \<Rightarrow>
                       (Inr (base_res, helper_ids),
                        send_requests user_id query helper_ids w3))))"

definition run_to_dispatch ::
  "string \<Rightarrow> string \<Rightarrow> World \<Rightarrow> (error + pyval \<times> string list) \<times> World" where
  "run_to_dispatch user_id query w =
     (case run_to_fan_out user_id query w of
        (Inl e, w4) \<Rightarrow> (Inl e, w4)
      | (Inr (base_res, helper_ids), w4) \<Rightarrow>
          (case process_helpers helper_ids w4 of
             (Inl e, w5) \<Rightarrow> (Inl e, w5)
           | (Inr u, w5) \<Rightarrow> (Inr (base_res, helper_ids), w5)))"

definition is_response :: "A2AMessage \<Rightarrow> bool" where
  "is_response m = (dict_get (payload m) ''type'' PNone = PStr ''recommendation_response'')"

definition helper_result_of :: "A2AMessage \<Rightarrow> HelperResult" where
  "helper_result_of m =
     \<lparr>hr_agent_id = from_agent_id m,
      hr_result = (case dict_get (payload m) ''result'' (PDict []) of PDict d \<Rightarrow> d | _ \<Rightarrow> [])\<rparr>"

section \<open>The scheduling of the specification\<close>



section \<open>A small concrete world\<close>

text \<open>
  Worlds on which the functions are run in the examples below. \<open>demo_world\<close> has two
  stored profiles and agents and an empty hub; its model answers with one product,
  named after the profile it is given and marked with the number of the call.
  \<open>solo_db\<close> holds the base user only, \<open>trio_db\<close> a base user and two peers.
  In \<open>trio_world\<close> the mailbox of \<open>u2\<close> holds a request from \<open>u3\<close> and the mailbox of
  \<open>u3\<close> holds nine messages of another type.
\<close>

definition demo_db :: Database where
  "demo_db =
     \<lparr>agents_table = [(''u1'', ''freigent'', ''Ann'', ''calm''),
                      (''u2'', ''freigent'', ''Bob'', ''bold'')],
      profiles_table = [(''u1'', ''Ann'', ''calm'', ''quality''),
                        (''u2'', ''Bob'', ''bold'', ''price'')],
      experiences_table = [(''u1'', ''kettle'', ''fine'', 4)],
      sqlite_adapt = (\<lambda>v. case v of PNone \<Rightarrow> Inr None | _ \<Rightarrow> Inl SqliteError)\<rparr>"

definition demo_reply :: "nat \<Rightarrow> Profile \<Rightarrow> pyval \<Rightarrow> pyval" where
  "demo_reply n p q =
     PDict [(''products'', PList [PDict [(''name'', PStr (prof_name p @ replicate n CHR ''+''))]]),
            (''summary_for_user'', PStr ''ok'')]"

definition demo_world :: World where
  "demo_world =
     \<lparr>hub = \<lparr>agents = [], inboxes = Map.empty,
              uuid4_source = (\<lambda>n. replicate n CHR ''x''), uuid4_drawn = 0\<rparr>,
      db = demo_db,
      FREIGENTS = [],
      anthropic_api_key = Some ''key'',
      llm_reply = demo_reply,
      llm_calls = [],
      py_str_other = (\<lambda>v. ''?'')\<rparr>"

definition request_from :: "string \<Rightarrow> string \<Rightarrow> string \<Rightarrow> A2AMessage" where
  "request_from mid sender recipient =
     \<lparr>message_id = mid, from_agent_id = sender, to_agent_id = recipient,
      payload = [(''type'', PStr ''recommendation_request''), (''query'', PStr ''tea'')]\<rparr>"

definition note_from :: "string \<Rightarrow> string \<Rightarrow> string \<Rightarrow> A2AMessage" where
  "note_from mid sender recipient =
     \<lparr>message_id = mid, from_agent_id = sender, to_agent_id = recipient,
      payload = [(''type'', PStr ''note'')]\<rparr>"

definition solo_db :: Database where
  "solo_db =
     \<lparr>agents_table = [(''u1'', ''freigent'', ''Ann'', ''calm'')],
      profiles_table = [(''u1'', ''Ann'', ''calm'', ''quality'')],
      experiences_table = [],
      sqlite_adapt = (\<lambda>v. case v of PNone \<Rightarrow> Inr None | _ \<Rightarrow> Inl SqliteError)\<rparr>"


definition response_from :: "string \<Rightarrow> string \<Rightarrow> string \<Rightarrow> A2AMessage" where
  "response_from mid sender recipient =
     \<lparr>message_id = mid, from_agent_id = sender, to_agent_id = recipient,
      payload = [(''type'', PStr ''recommendation_response''),
                 (''result'', PDict [(''products'', PList [PDict [(''name'', PStr ''lamp'')]])])]\<rparr>"



section \<open>Hub lemmas\<close>

lemma inbox_of_send_message:
  "inbox_of (snd (send_message f t pl h)) a =
     (if a = t then inbox_of h a @ [fst (send_message f t pl h)] else inbox_of h a)"
  by (simp add: send_message_def inbox_of_def Let_def)

lemma send_message_fields:
  "from_agent_id (fst (send_message f t pl h)) = f"
  "to_agent_id (fst (send_message f t pl h)) = t"
  "payload (fst (send_message f t pl h)) = pl"
  by (simp_all add: send_message_def Let_def)

lemma inbox_of_send_messages:
  "inbox_of (snd (send_messages calls h)) a =
     inbox_of h a @ filter (\<lambda>m. to_agent_id m = a) (fst (send_messages calls h))"
proof (induction calls arbitrary: h)
  case Nil
  show ?case by simp
next
  case (Cons c calls)
  obtain f t pl where c: "c = (f, t, pl)" by (cases c)
  show ?case
    using Cons.IH [of "snd (send_message f t pl h)"]
    by (simp add: c split_beta Let_def inbox_of_send_message send_message_fields)
qed

lemma send_messages_fields:
  "map (\<lambda>m. (from_agent_id m, to_agent_id m, payload m)) (fst (send_messages calls h)) = calls"
proof (induction calls arbitrary: h)
  case Nil
  show ?case by simp
next
  case (Cons c calls)
  obtain f t pl where c: "c = (f, t, pl)" by (cases c)
  show ?case
    using Cons.IH [of "snd (send_message f t pl h)"]
    by (simp add: c split_beta Let_def send_message_fields)
qed

lemma get_inbox_clear:
  "fst (get_inbox a True h) = inbox_of h a"
  "inbox_of (snd (get_inbox a True h)) b = (if b = a then [] else inbox_of h b)"
  by (simp_all add: get_inbox_def inbox_of_def Let_def)

section \<open>Claims about the hub\<close>

text \<open>
  C1. Take any hub in which the mailbox of \<open>a\<close> holds no message (absent, or empty
  since the last drain), make any run of \<open>send_message\<close> calls with no drain in
  between, and call \<open>get_inbox a\<close> with \<open>clear = True\<close>: it returns exactly the
  messages that the calls addressed to \<open>a\<close> returned, in call order, and the messages
  carry the senders, recipients and payloads given. When every call is addressed to
  \<open>a\<close> this is the whole run. A \<open>get_inbox\<close> right after returns the empty list.
\<close>

theorem C1_drain_returns_sends_in_order:
  assumes "inbox_of h a = []"
  shows "let (sent, h') = send_messages calls h;
             (drained, h'') = get_inbox a True h'
         in drained = filter (\<lambda>m. to_agent_id m = a) sent
          \<and> map (\<lambda>m. (from_agent_id m, to_agent_id m, payload m)) sent = calls
          \<and> ((\<forall>c \<in> set calls. fst (snd c) = a) \<longrightarrow> drained = sent)
          \<and> fst (get_inbox a clear h'') = []"
proof -
  let ?sent = "fst (send_messages calls h)"
  let ?h' = "snd (send_messages calls h)"
  have fields: "map (\<lambda>m. (from_agent_id m, to_agent_id m, payload m)) ?sent = calls"
    by (rule send_messages_fields)
  have drained: "fst (get_inbox a True ?h') = filter (\<lambda>m. to_agent_id m = a) ?sent"
    using assms by (simp add: get_inbox_clear inbox_of_send_messages)
  have all: "filter (\<lambda>m. to_agent_id m = a) ?sent = ?sent"
    if "\<forall>c \<in> set calls. fst (snd c) = a"
  proof -
    have "\<forall>m \<in> set ?sent. (from_agent_id m, to_agent_id m, payload m) \<in> set calls"
      using fields by (metis (no_types, lifting) image_eqI list.set_map)
    with that have "\<forall>m \<in> set ?sent. to_agent_id m = a" by fastforce
    then show ?thesis by simp
  qed
  have again: "fst (get_inbox a clear (snd (get_inbox a True ?h'))) = []"
    by (simp add: get_inbox_def inbox_of_def Let_def)
  show ?thesis
    using fields drained all again by (simp add: split_beta)
qed

theorem C1_drain_returns_sends_in_order_witness:
  "let h = \<lparr>agents = [], inboxes = Map.empty, uuid4_source = (\<lambda>n. replicate n CHR ''x''),
            uuid4_drawn = 0\<rparr>;
       calls = [(''u1'', ''u2'', [(''k'', PInt 1)]), (''u3'', ''u2'', [])]
   in inbox_of h ''u2'' = []
    \<and> fst (get_inbox ''u2'' True (snd (send_messages calls h)))
        = [\<lparr>message_id = '''', from_agent_id = ''u1'', to_agent_id = ''u2'',
             payload = [(''k'', PInt 1)]\<rparr>,
           \<lparr>message_id = ''x'', from_agent_id = ''u3'', to_agent_id = ''u2'', payload = []\<rparr>]
    \<and> fst (get_inbox ''u2'' True
             (snd (get_inbox ''u2'' True (snd (send_messages calls h))))) = []"
proof -
  let ?h = "\<lparr>agents = [], inboxes = Map.empty, uuid4_source = (\<lambda>n. replicate n CHR ''x''),
             uuid4_drawn = 0\<rparr>"
  let ?calls = "[(''u1'', ''u2'', [(''k'', PInt 1)]), (''u3'', ''u2'', [])]"
  have e: "inbox_of ?h ''u2'' = []" by (simp add: inbox_of_def)
  have s: "fst (send_messages ?calls ?h)
        = [\<lparr>message_id = '''', from_agent_id = ''u1'', to_agent_id = ''u2'',
             payload = [(''k'', PInt 1)]\<rparr>,
           \<lparr>message_id = ''x'', from_agent_id = ''u3'', to_agent_id = ''u2'', payload = []\<rparr>]"
    by (simp add: send_message_def inbox_of_def Let_def)
  show ?thesis
    using C1_drain_returns_sends_in_order [OF e, of ?calls True] e s
    by (simp add: split_beta Let_def)
qed

text \<open>
  C10. For an agent id with no mailbox entry, \<open>get_inbox\<close> with \<open>clear = True\<close>
  returns the empty list and leaves an empty mailbox stored under that id, and nothing
  else changes; with \<open>clear = False\<close> it returns the empty list and the hub is the
  same as before.
\<close>

theorem C10_get_inbox_unknown_agent:
  assumes "inboxes h a = None"
  shows "fst (get_inbox a True h) = []
       \<and> inboxes (snd (get_inbox a True h)) a = Some []
       \<and> snd (get_inbox a True h) = h\<lparr>inboxes := (inboxes h)(a \<mapsto> [])\<rparr>
       \<and> snd (get_inbox a True h) \<noteq> h
       \<and> get_inbox a False h = ([], h)"
proof -
  have "inboxes (snd (get_inbox a True h)) a \<noteq> inboxes h a"
    using assms by (simp add: get_inbox_def Let_def)
  then have "snd (get_inbox a True h) \<noteq> h" by auto
  then show ?thesis
    using assms by (simp add: get_inbox_def inbox_of_def Let_def)
qed

theorem C10_get_inbox_unknown_agent_witness:
  "let h = \<lparr>agents = [], inboxes = Map.empty, uuid4_source = (\<lambda>n. []), uuid4_drawn = 0\<rparr>
   in inboxes h ''ghost'' = None
    \<and> fst (get_inbox ''ghost'' True h) = []
    \<and> inboxes (snd (get_inbox ''ghost'' True h)) ''ghost'' = Some []
    \<and> snd (get_inbox ''ghost'' True h) \<noteq> h
    \<and> get_inbox ''ghost'' False h = ([], h)"
  using C10_get_inbox_unknown_agent
          [of "\<lparr>agents = [], inboxes = Map.empty, uuid4_source = (\<lambda>n. []), uuid4_drawn = 0\<rparr>"
              "''ghost''"]
  by (simp add: Let_def)


section \<open>Worker lemmas\<close>

lemma get_or_create_freigent_frame:
  "hub (snd (get_or_create_freigent u w)) = hub w"
  "db (snd (get_or_create_freigent u w)) = db w"
  "llm_calls (snd (get_or_create_freigent u w)) = llm_calls w"
  "llm_reply (snd (get_or_create_freigent u w)) = llm_reply w"
  "py_str_other (snd (get_or_create_freigent u w)) = py_str_other w"
  by (simp_all add: get_or_create_freigent_def)

lemma hub_send_message_frame:
  "db (hub_send_message f t pl w) = db w"
  "llm_calls (hub_send_message f t pl w) = llm_calls w"
  "FREIGENTS (hub_send_message f t pl w) = FREIGENTS w"
  by (simp_all add: hub_send_message_def)

lemma inbox_of_hub_send_message:
  "inbox_of (hub (hub_send_message f t pl w)) a =
     (if a = t then inbox_of (hub w) a @ [fst (send_message f t pl (hub w))]
      else inbox_of (hub w) a)"
  by (simp add: hub_send_message_def inbox_of_send_message)

lemma generate_frame:
  "hub (snd (generate_recommendations_json ag p q w)) = hub w"
  "db (snd (generate_recommendations_json ag p q w)) = db w"
  by (simp_all add: generate_recommendations_json_def)

lemma process_messages_inbox_length:
  "process_messages wid ms acc w = (Inr outs, w') \<Longrightarrow>
   length (inbox_of (hub w') a) =
     length (inbox_of (hub w) a) + length (filter (\<lambda>m. is_request m \<and> from_agent_id m = a) ms)"
proof (induction ms arbitrary: acc w)
  case Nil
  then show ?case by simp
next
  case (Cons m ms)
  show ?case
  proof (cases "is_request m")
    case False
    with Cons.prems have "process_messages wid ms (acc @ [ignored_outcome w m]) w = (Inr outs, w')"
      by (simp add: is_request_def)
    from Cons.IH [OF this] False show ?thesis by simp
  next
    case True
    let ?key = "dict_get (payload m) ''from_user_id'' (PStr (from_agent_id m))"
    show ?thesis
    proof (cases "db_load_profile (db w) ?key")
      case (Inl e)
      with True Cons.prems show ?thesis by (simp add: is_request_def Let_def)
    next
      case (Inr po)
      show ?thesis
      proof (cases po)
        case None
        with True Inr Cons.prems
        have "process_messages wid ms (acc @ [error_outcome w m ?key])
                (hub_send_message wid (from_agent_id m) (error_payload w m ?key) w) = (Inr outs, w')"
          by (simp add: is_request_def Let_def)
        from Cons.IH [OF this] True show ?thesis
          by (simp add: inbox_of_hub_send_message)
      next
        case (Some prof)
        let ?q = "dict_get (payload m) ''query'' (PStr [])"
        let ?g = "generate_recommendations_json wid prof ?q w"
        from Some True Inr Cons.prems
        have "process_messages wid ms (acc @ [ok_outcome m])
                (hub_send_message wid (from_agent_id m)
                   (reply_payload m ?q ?key (fst ?g)) (snd ?g)) = (Inr outs, w')"
          by (simp add: is_request_def Let_def split_beta)
        from Cons.IH [OF this] True show ?thesis
          by (simp add: inbox_of_hub_send_message generate_frame)
      qed
    qed
  qed
qed

lemma process_messages_outcomes:
  "process_messages wid ms acc w = (Inr outs, w') \<Longrightarrow>
   length outs = length acc + length ms
   \<and> map (\<lambda>oc. dict_get oc ''request_message_id'' PNone) outs =
       map (\<lambda>oc. dict_get oc ''request_message_id'' PNone) acc @ map (\<lambda>m. PStr (message_id m)) ms"
proof (induction ms arbitrary: acc w)
  case Nil
  then show ?case by simp
next
  case (Cons m ms)
  have oc: "dict_get (ignored_outcome w m) ''request_message_id'' PNone = PStr (message_id m)"
           "\<And>k. dict_get (error_outcome w m k) ''request_message_id'' PNone = PStr (message_id m)"
           "dict_get (ok_outcome m) ''request_message_id'' PNone = PStr (message_id m)"
    by (simp_all add: dict_get_def ignored_outcome_def error_outcome_def ok_outcome_def)
  from Cons.prems show ?case
    by (auto simp: Let_def split_beta oc split: if_splits sum.splits option.splits
             dest!: Cons.IH)
qed


lemmas demo_defs = demo_world_def demo_db_def demo_reply_def request_from_def note_from_def
  set_inbox_def

lemmas worker_defs = process_recommendation_requests_for_agent_def get_or_create_freigent_def
  get_inbox_def inbox_of_def py_slice_to_def dict_get_def db_load_profile_def sqlite_bind_def
  hub_send_message_def send_message_def generate_recommendations_json_def
  ignored_outcome_def error_outcome_def error_payload_def error_text_def ok_outcome_def
  reply_payload_def py_str_def

lemma get_or_create_freigent_ok:
  assumes "u \<in> set (FREIGENTS w)
           \<or> (anthropic_api_key w \<noteq> None \<and> anthropic_api_key w \<noteq> Some [])"
  shows "fst (get_or_create_freigent u w) = Inr ()"
  using assms by (auto simp: get_or_create_freigent_def)

lemma fst_send_message:
  "fst (send_message f t pl h) =
     \<lparr>message_id = uuid4_source h (uuid4_drawn h), from_agent_id = f, to_agent_id = t,
      payload = pl\<rparr>"
  by (simp add: send_message_def Let_def)

lemma inbox_of_inboxes_update:
  "inbox_of (h\<lparr>inboxes := (inboxes h)(x \<mapsto> msgs)\<rparr>) a = (if a = x then msgs else inbox_of h a)"
  by (simp add: inbox_of_def)

lemma process_unfold:
  "process_recommendation_requests_for_agent worker_id max_messages w =
     (case get_or_create_freigent worker_id w of
        (Inl e, w1) \<Rightarrow> (Inl e, w1)
      | (Inr u, w1) \<Rightarrow>
          process_messages worker_id (py_slice_to max_messages (inbox_of (hub w) worker_id)) []
            (w1\<lparr>hub := (hub w)\<lparr>inboxes := (inboxes (hub w))(worker_id \<mapsto> [])\<rparr>\<rparr>))"
proof -
  have "hub (snd (get_or_create_freigent worker_id w)) = hub w"
    by (rule get_or_create_freigent_frame)
  then show ?thesis
    by (cases "get_or_create_freigent worker_id w")
       (simp add: process_recommendation_requests_for_agent_def get_inbox_def Let_def
          split: sum.splits)
qed

lemma get_or_create_freigent_set_inbox:
  "get_or_create_freigent u (set_inbox a msgs w) =
     (fst (get_or_create_freigent u w), set_inbox a msgs (snd (get_or_create_freigent u w)))"
  by (simp add: get_or_create_freigent_def set_inbox_def)

section \<open>Claims about the worker\<close>

text \<open>
  C2. The worker runs on an agent whose mailbox holds exactly one message \<open>m\<close>; \<open>m\<close>
  has payload type \<open>recommendation_request\<close>, and the profile id it resolves to
  (\<open>from_user_id\<close> of the payload, else \<open>from_agent_id\<close> of the message) has a stored
  profile. The model client for the worker can be built and the cap is at least one
  (the default and the orchestrator's value is 10). Then the call returns exactly one
  outcome, with status \<open>ok\<close> and \<open>sent_to\<close> the requester; the mailboxes afterwards
  are the ones before, with the worker's own drained and exactly one new message
  appended to the requester's: a \<open>recommendation_response\<close> from the worker whose
  \<open>original_message_id\<close> is the id of \<open>m\<close> and which carries the query, the profile
  id and the result of the single model call made.
\<close>

theorem C2_single_request_answered:
  assumes mailbox: "inbox_of (hub w) worker_id = [m]"
    and req: "dict_get (payload m) ''type'' PNone = PStr ''recommendation_request''"
    and prof: "db_load_profile (db w)
                 (dict_get (payload m) ''from_user_id'' (PStr (from_agent_id m))) = Inr (Some profile)"
    and client: "worker_id \<in> set (FREIGENTS w)
                 \<or> (anthropic_api_key w \<noteq> None \<and> anthropic_api_key w \<noteq> Some [])"
    and cap: "1 \<le> max_messages"
  shows "let requester = from_agent_id m;
             query = dict_get (payload m) ''query'' (PStr []);
             profile_user_id = dict_get (payload m) ''from_user_id'' (PStr requester);
             result = llm_reply w (length (llm_calls w)) profile query;
             reply = \<lparr>message_id = uuid4_source (hub w) (uuid4_drawn (hub w)),
                      from_agent_id = worker_id, to_agent_id = requester,
                      payload = [(''type'', PStr ''recommendation_response''),
                                 (''original_message_id'', PStr (message_id m)),
                                 (''query'', query),
                                 (''profile_user_id'', profile_user_id),
                                 (''result'', result)]\<rparr>;
             (outcomes, w') = process_recommendation_requests_for_agent worker_id max_messages w
         in outcomes = Inr [[(''request_message_id'', PStr (message_id m)),
                             (''status'', PStr ''ok''),
                             (''sent_to'', PStr requester)]]
          \<and> (\<forall>a. inbox_of (hub w') a =
                    (if a = worker_id then [] else inbox_of (hub w) a)
                    @ (if a = requester then [reply] else []))
          \<and> llm_calls w' = llm_calls w @ [(worker_id, profile, query)]"
proof -
  have "nat max_messages = Suc (nat (max_messages - 1))"
    using cap by simp
  then have slice: "py_slice_to max_messages [m] = [m]"
    using cap by (simp add: py_slice_to_def)
  define w1 where "w1 = snd (get_or_create_freigent worker_id w)"
  have goc: "get_or_create_freigent worker_id w = (Inr (), w1)"
    using get_or_create_freigent_ok [OF client] by (simp add: w1_def prod_eq_iff)
  have w1: "hub w1 = hub w" "db w1 = db w" "llm_calls w1 = llm_calls w"
           "llm_reply w1 = llm_reply w"
    by (simp_all add: w1_def get_or_create_freigent_frame)
  let ?w2 = "w1\<lparr>hub := (hub w)\<lparr>inboxes := (inboxes (hub w))(worker_id \<mapsto> [])\<rparr>\<rparr>"
  have run: "process_recommendation_requests_for_agent worker_id max_messages w
               = process_messages worker_id [m] [] ?w2"
    using mailbox slice
    by (simp add: process_recommendation_requests_for_agent_def goc get_inbox_def Let_def w1)
  show ?thesis
    using req prof
    by (simp add: run Let_def split_beta w1 generate_recommendations_json_def
        inbox_of_hub_send_message inbox_of_inboxes_update fst_send_message reply_payload_def
        ok_outcome_def hub_send_message_frame)
qed


text \<open>C2 at a concrete world: \<open>u1\<close> asks \<open>u2\<close>, and holds a stored profile.\<close>

theorem C2_single_request_answered_witness:
  "let w = set_inbox ''u2'' [request_from ''m0'' ''u1'' ''u2''] demo_world;
       (outcomes, w') = process_recommendation_requests_for_agent ''u2'' 10 w
   in inbox_of (hub w) ''u2'' = [request_from ''m0'' ''u1'' ''u2'']
    \<and> db_load_profile (db w) (PStr ''u1'') \<noteq> Inr None
    \<and> outcomes = Inr [[(''request_message_id'', PStr ''m0''), (''status'', PStr ''ok''),
                        (''sent_to'', PStr ''u1'')]]
    \<and> map (\<lambda>r. dict_get (payload r) ''original_message_id'' PNone) (inbox_of (hub w') ''u1'')
        = [PStr ''m0'']
    \<and> inbox_of (hub w') ''u2'' = []"
proof -
  let ?m = "request_from ''m0'' ''u1'' ''u2''"
  let ?w = "set_inbox ''u2'' [?m] demo_world"
  let ?p = "\<lparr>prof_name = ''Ann'', prof_personality = ''calm'', prof_values = ''quality'',
             prof_experiences = [\<lparr>exp_name = ''kettle'', exp_notes = ''fine'', exp_rating = 4\<rparr>]\<rparr>"
  have h1: "inbox_of (hub ?w) ''u2'' = [?m]"
    by (simp add: demo_defs inbox_of_def)
  have h2: "dict_get (payload ?m) ''type'' PNone = PStr ''recommendation_request''"
    by (simp add: demo_defs dict_get_def)
  have h3: "db_load_profile (db ?w) (dict_get (payload ?m) ''from_user_id'' (PStr (from_agent_id ?m)))
              = Inr (Some ?p)"
    by (simp add: demo_defs dict_get_def db_load_profile_def sqlite_bind_def)
  have h4: "''u2'' \<in> set (FREIGENTS ?w)
            \<or> (anthropic_api_key ?w \<noteq> None \<and> anthropic_api_key ?w \<noteq> Some [])"
    by (simp add: demo_defs)
  have h5: "(1::int) \<le> 10" by simp
  have k: "dict_get (payload ?m) ''from_user_id'' (PStr (from_agent_id ?m)) = PStr ''u1''"
    by (simp add: demo_defs dict_get_def)
  have e: "inbox_of (hub ?w) ''u1'' = []"
    by (simp add: demo_defs inbox_of_def)
  have i: "message_id ?m = ''m0''" "from_agent_id ?m = ''u1''"
    by (simp_all add: demo_defs)
  show ?thesis
    using C2_single_request_answered [OF h1 h2 h3 h4 h5] h1 h3 k e
    by (simp add: Let_def split_beta i dict_get_def)
qed

lemma process_messages_prefix:
  "process_messages wid ms acc w = (Inr outs, w') \<Longrightarrow> take (length acc) outs = acc"
proof (induction ms arbitrary: acc w)
  case Nil
  then show ?case by simp
next
  case (Cons m ms)
  have "\<And>x w1. process_messages wid ms (acc @ [x]) w1 = (Inr outs, w') \<Longrightarrow>
          take (length acc) outs = acc"
  proof -
    fix x w1
    assume "process_messages wid ms (acc @ [x]) w1 = (Inr outs, w')"
    then have "take (length (acc @ [x])) outs = acc @ [x]" by (rule Cons.IH)
    then have "take (length acc) (take (length (acc @ [x])) outs) = take (length acc) (acc @ [x])"
      by simp
    then show "take (length acc) outs = acc" by (simp add: min_def)
  qed
  with Cons.prems show ?case
    by (auto simp: Let_def split_beta split: if_splits sum.splits option.splits)
qed

text \<open>
  C8. Whenever the loop of the worker examines a message \<open>m\<close> of payload type
  \<open>recommendation_request\<close> whose resolved profile id loads no profile, in any state
  and with any messages \<open>ms\<close> still to examine, the step appends exactly one outcome,
  with status \<open>error\<close>, and changes the world by exactly one \<open>send_message\<close>: a
  \<open>recommendation_error\<close> from the worker to the requester carrying the reason and the
  id of \<open>m\<close> as \<open>original_message_id\<close>. No other mailbox changes, the model is not
  called and the message sent is not a \<open>recommendation_response\<close>. When the loop
  returns, the outcome list has one entry per message and the entry of \<open>m\<close> is that
  error outcome. In particular, a worker pass over a mailbox that holds just \<open>m\<close> (cap
  at least one, client available) returns that one outcome, leaves the error message
  as the only new message, and makes no model call.
\<close>

theorem C8_missing_profile_yields_error:
  assumes req: "dict_get (payload m) ''type'' PNone = PStr ''recommendation_request''"
    and absent: "db_load_profile (db w)
                   (dict_get (payload m) ''from_user_id'' (PStr (from_agent_id m))) = Inr None"
  shows "let requester = from_agent_id m;
             profile_user_id = dict_get (payload m) ''from_user_id'' (PStr requester);
             reason = ''No profile found for user_id '' @ [CHR 39]
                      @ py_str w profile_user_id @ [CHR 39];
             error_message =
               \<lparr>message_id = uuid4_source (hub w) (uuid4_drawn (hub w)),
                from_agent_id = worker_id, to_agent_id = requester,
                payload = [(''type'', PStr ''recommendation_error''),
                           (''reason'', PStr reason),
                           (''original_message_id'', PStr (message_id m))]\<rparr>;
             outcome = [(''request_message_id'', PStr (message_id m)),
                        (''status'', PStr ''error''),
                        (''error'', PStr reason)];
             w' = hub_send_message worker_id requester (payload error_message) w
         in process_messages worker_id (m # ms) processed w
              = process_messages worker_id ms (processed @ [outcome]) w'
          \<and> (\<forall>a. inbox_of (hub w') a =
                    inbox_of (hub w) a @ (if a = requester then [error_message] else []))
          \<and> llm_calls w' = llm_calls w
          \<and> (\<forall>outcomes w''.
                process_messages worker_id (m # ms) processed w = (Inr outcomes, w'') \<longrightarrow>
                length outcomes = length processed + 1 + length ms
                \<and> outcomes ! length processed = outcome)
          \<and> (inbox_of (hub w) worker_id = [m] \<and> 1 \<le> max_messages
               \<and> (worker_id \<in> set (FREIGENTS w)
                    \<or> (anthropic_api_key w \<noteq> None \<and> anthropic_api_key w \<noteq> Some []))
               \<longrightarrow>
               (let (result, w2) =
                      process_recommendation_requests_for_agent worker_id max_messages w
                in result = Inr [outcome]
                 \<and> (\<forall>a. inbox_of (hub w2) a =
                           (if a = worker_id then [] else inbox_of (hub w) a)
                           @ (if a = requester then [error_message] else []))
                 \<and> llm_calls w2 = llm_calls w))"
proof -
  let ?key = "dict_get (payload m) ''from_user_id'' (PStr (from_agent_id m))"
  let ?w' = "hub_send_message worker_id (from_agent_id m) (error_payload w m ?key) w"
  let ?msg = "\<lparr>message_id = uuid4_source (hub w) (uuid4_drawn (hub w)),
                from_agent_id = worker_id, to_agent_id = from_agent_id m,
                payload = error_payload w m ?key\<rparr>"
  have step: "process_messages worker_id (m # ms) processed w
                = process_messages worker_id ms (processed @ [error_outcome w m ?key]) ?w'"
    using req absent by (simp add: Let_def)
  have tail: "length outcomes = length processed + 1 + length ms
              \<and> outcomes ! length processed = error_outcome w m ?key"
    if "process_messages worker_id (m # ms) processed w = (Inr outcomes, w'')" for outcomes w''
  proof -
    from that step
    have r: "process_messages worker_id ms (processed @ [error_outcome w m ?key]) ?w'
               = (Inr outcomes, w'')" by simp
    have len: "length outcomes = length processed + 1 + length ms"
      using process_messages_outcomes [OF r] by simp
    have "take (length (processed @ [error_outcome w m ?key])) outcomes
            = processed @ [error_outcome w m ?key]"
      using process_messages_prefix [OF r] .
    then have "take (Suc (length processed)) outcomes ! length processed
                 = (processed @ [error_outcome w m ?key]) ! length processed"
      by simp
    then have "outcomes ! length processed = error_outcome w m ?key"
      by simp
    with len show ?thesis by simp
  qed
  have whole: "fst (process_recommendation_requests_for_agent worker_id max_messages w)
                 = Inr [error_outcome w m ?key]
             \<and> (\<forall>a. inbox_of (hub (snd (process_recommendation_requests_for_agent
                                            worker_id max_messages w))) a =
                      (if a = worker_id then [] else inbox_of (hub w) a)
                      @ (if a = from_agent_id m then [?msg] else []))
             \<and> llm_calls (snd (process_recommendation_requests_for_agent
                                 worker_id max_messages w)) = llm_calls w"
    if mailbox: "inbox_of (hub w) worker_id = [m]" and cap: "1 \<le> max_messages"
      and client: "worker_id \<in> set (FREIGENTS w)
                   \<or> (anthropic_api_key w \<noteq> None \<and> anthropic_api_key w \<noteq> Some [])"
  proof -
    have "nat max_messages = Suc (nat (max_messages - 1))"
      using cap by simp
    then have slice: "py_slice_to max_messages [m] = [m]"
      using cap by (simp add: py_slice_to_def)
    define w1 where "w1 = snd (get_or_create_freigent worker_id w)"
    have goc: "get_or_create_freigent worker_id w = (Inr (), w1)"
      using get_or_create_freigent_ok [OF client] by (simp add: w1_def prod_eq_iff)
    have w1: "hub w1 = hub w" "db w1 = db w" "llm_calls w1 = llm_calls w"
             "py_str_other w1 = py_str_other w"
      by (simp_all add: w1_def get_or_create_freigent_frame)
    let ?w2 = "w1\<lparr>hub := (hub w)\<lparr>inboxes := (inboxes (hub w))(worker_id \<mapsto> [])\<rparr>\<rparr>"
    have run: "process_recommendation_requests_for_agent worker_id max_messages w
                 = process_messages worker_id [m] [] ?w2"
      using mailbox slice by (simp add: process_unfold goc)
    have etxt: "error_text ?w2 ?key = error_text w ?key"
      by (simp add: error_text_def py_str_def w1 split: pyval.splits)
    show ?thesis
      using req absent
      by (simp add: run Let_def w1 inbox_of_hub_send_message inbox_of_inboxes_update
          fst_send_message hub_send_message_frame error_payload_def error_outcome_def etxt)
  qed
  show ?thesis
    using step tail whole
    by (simp add: Let_def split_beta error_payload_def error_outcome_def error_text_def
        inbox_of_hub_send_message fst_send_message hub_send_message_frame)
qed

text \<open>C8 at a concrete world: \<open>u9\<close> has no stored profile.\<close>

theorem C8_missing_profile_yields_error_witness:
  "let m = request_from ''m0'' ''u9'' ''u2'';
       w = set_inbox ''u2'' [m] demo_world;
       (outcomes, w') = process_recommendation_requests_for_agent ''u2'' 10 w
   in dict_get (payload m) ''type'' PNone = PStr ''recommendation_request''
    \<and> db_load_profile (db w) (PStr ''u9'') = Inr None
    \<and> inbox_of (hub w) ''u2'' = [m]
    \<and> map (\<lambda>oc. dict_get oc ''status'' PNone) (case outcomes of Inr ocs \<Rightarrow> ocs | Inl e \<Rightarrow> [])
        = [PStr ''error'']
    \<and> map (\<lambda>r. (dict_get (payload r) ''type'' PNone,
                  dict_get (payload r) ''original_message_id'' PNone))
          (inbox_of (hub w') ''u9'')
        = [(PStr ''recommendation_error'', PStr ''m0'')]
    \<and> inbox_of (hub w') ''u2'' = []
    \<and> llm_calls w' = []"
proof -
  let ?m = "request_from ''m0'' ''u9'' ''u2''"
  let ?w = "set_inbox ''u2'' [?m] demo_world"
  have k: "dict_get (payload ?m) ''from_user_id'' (PStr (from_agent_id ?m)) = PStr ''u9''"
    by (simp add: demo_defs dict_get_def)
  have h1: "dict_get (payload ?m) ''type'' PNone = PStr ''recommendation_request''"
    by (simp add: demo_defs dict_get_def)
  have h2: "db_load_profile (db ?w)
              (dict_get (payload ?m) ''from_user_id'' (PStr (from_agent_id ?m))) = Inr None"
    by (simp add: k) (simp add: demo_defs db_load_profile_def sqlite_bind_def)
  have h3: "inbox_of (hub ?w) ''u2'' = [?m]"
    by (simp add: demo_defs inbox_of_def)
  have h4: "''u2'' \<in> set (FREIGENTS ?w)
            \<or> (anthropic_api_key ?w \<noteq> None \<and> anthropic_api_key ?w \<noteq> Some [])"
    by (simp add: demo_defs)
  have e: "inbox_of (hub ?w) ''u9'' = []" "llm_calls ?w = []"
    by (simp_all add: demo_defs inbox_of_def)
  have i: "message_id ?m = ''m0''" "from_agent_id ?m = ''u9''"
    by (simp_all add: demo_defs)
  have cap: "(1::int) \<le> 10" by simp
  note whole = C8_missing_profile_yields_error [OF h1 h2, of "''u2''" "[]" "[]" 10, unfolded Let_def,
      THEN conjunct2, THEN conjunct2, THEN conjunct2, THEN conjunct2, THEN mp,
      OF conjI [OF h3 conjI [OF cap h4]]]
  have h2': "db_load_profile (db ?w) (PStr ''u9'') = Inr None"
    using h2 by (simp only: k)
  show ?thesis
    using whole h1 h2' h3 e
    by (simp add: Let_def split_beta i k dict_get_def)
qed

text \<open>
  C4 as stated fails: a request whose \<open>from_agent_id\<close> is the processed agent itself is
  answered into the mailbox that was just drained, which is then not empty on return.
\<close>

theorem C4_own_mailbox_counterexample:
  "let w = set_inbox ''u9'' [request_from ''m0'' ''u9'' ''u9''] demo_world;
       (outcomes, w') = process_recommendation_requests_for_agent ''u9'' 10 w
   in map (\<lambda>oc. dict_get oc ''status'' PNone) (case outcomes of Inr ocs \<Rightarrow> ocs | Inl e \<Rightarrow> [])
        = [PStr ''error'']
    \<and> map (\<lambda>r. dict_get (payload r) ''type'' PNone) (inbox_of (hub w') ''u9'')
        = [PStr ''recommendation_error'']
    \<and> inbox_of (hub w') ''u9'' \<noteq> []"
  by (simp add: demo_defs worker_defs Let_def)

lemma length_eq_Nil_iff: "length xs = length ys \<Longrightarrow> (xs = []) = (ys = [])"
  by (cases xs; cases ys) simp_all

text \<open>
  C4, amended. For every initial mailbox and every \<open>max_messages\<close>, when the worker
  returns, the processed agent's own mailbox holds as many messages as there were
  examined requests whose \<open>from_agent_id\<close> is the agent's own id (one reply each); so it
  is empty exactly when no examined request came from the agent itself.
\<close>

theorem C4_own_mailbox_after_process:
  assumes "process_recommendation_requests_for_agent worker_id max_messages w = (Inr outcomes, w')"
  shows "let examined = py_slice_to max_messages (inbox_of (hub w) worker_id);
             own_requests =
               filter (\<lambda>m. dict_get (payload m) ''type'' PNone = PStr ''recommendation_request''
                            \<and> from_agent_id m = worker_id) examined
         in length (inbox_of (hub w') worker_id) = length own_requests
          \<and> (inbox_of (hub w') worker_id = [] \<longleftrightarrow> own_requests = [])"
proof -
  obtain r w1 where goc: "get_or_create_freigent worker_id w = (r, w1)"
    by (cases "get_or_create_freigent worker_id w")
  have w1: "hub w1 = hub w"
    using get_or_create_freigent_frame(1) [of worker_id w] by (simp add: goc)
  let ?w2 = "w1\<lparr>hub := (hub w)\<lparr>inboxes := (inboxes (hub w))(worker_id \<mapsto> [])\<rparr>\<rparr>"
  have run: "process_messages worker_id (py_slice_to max_messages (inbox_of (hub w) worker_id))
               [] ?w2 = (Inr outcomes, w')"
    using assms
    by (simp add: process_recommendation_requests_for_agent_def get_inbox_def Let_def
        goc w1 split: sum.splits)
  have "length (inbox_of (hub w') worker_id) =
          length (filter (\<lambda>m. is_request m \<and> from_agent_id m = worker_id)
                    (py_slice_to max_messages (inbox_of (hub w) worker_id)))"
    using process_messages_inbox_length [OF run, of worker_id]
    by (simp add: inbox_of_inboxes_update)
  then have "length (inbox_of (hub w') worker_id) =
          length (filter (\<lambda>m. dict_get (payload m) ''type'' PNone = PStr ''recommendation_request''
                              \<and> from_agent_id m = worker_id)
                    (py_slice_to max_messages (inbox_of (hub w) worker_id)))"
    by (simp add: is_request_def)
  then show ?thesis
    unfolding Let_def using length_eq_Nil_iff by blast
qed




text \<open>C4 at a concrete world: a request from another agent and a note from itself.\<close>

theorem C4_own_mailbox_after_process_witness:
  "let w = set_inbox ''u2'' [request_from ''m0'' ''u1'' ''u2'', note_from ''m1'' ''u2'' ''u2'']
             demo_world;
       (outcomes, w') = process_recommendation_requests_for_agent ''u2'' 10 w
   in map (\<lambda>oc. dict_get oc ''status'' PNone) (case outcomes of Inr ocs \<Rightarrow> ocs | Inl e \<Rightarrow> [])
        = [PStr ''ok'', PStr ''ignored'']
    \<and> inbox_of (hub w') ''u2'' = []"
proof -
  let ?w = "set_inbox ''u2'' [request_from ''m0'' ''u1'' ''u2'', note_from ''m1'' ''u2'' ''u2'']
              demo_world"
  obtain outcomes w' where
    run: "process_recommendation_requests_for_agent ''u2'' 10 ?w = (outcomes, w')"
    by (cases "process_recommendation_requests_for_agent ''u2'' 10 ?w")
  have "fst (process_recommendation_requests_for_agent ''u2'' 10 ?w)
          = Inr [ok_outcome (request_from ''m0'' ''u1'' ''u2''),
                 ignored_outcome demo_world (note_from ''m1'' ''u2'' ''u2'')]"
    by code_simp
  then have ocs: "outcomes = Inr [ok_outcome (request_from ''m0'' ''u1'' ''u2''),
                             ignored_outcome demo_world (note_from ''m1'' ''u2'' ''u2'')]"
    by (simp add: run)
  have own: "filter (\<lambda>m. dict_get (payload m) ''type'' PNone = PStr ''recommendation_request''
                          \<and> from_agent_id m = ''u2'')
               (py_slice_to 10 (inbox_of (hub ?w) ''u2'')) = []"
    by (simp add: demo_defs inbox_of_def py_slice_to_def dict_get_def)
  show ?thesis
    using C4_own_mailbox_after_process [OF run [unfolded ocs]] own
    by (simp add: run ocs Let_def ok_outcome_def ignored_outcome_def dict_get_def)
qed


text \<open>
  C9 as stated fails for a negative cap: \<^verbatim>\<open>msgs[:-1]\<close> is all but the last message,
  so with two drained messages one is examined, which is more than \<open>max_messages\<close>.
\<close>

theorem C9_negative_cap_counterexample:
  "let w = set_inbox ''u2'' [note_from ''m0'' ''u1'' ''u2'', note_from ''m1'' ''u1'' ''u2'']
             demo_world;
       outcomes = (case fst (process_recommendation_requests_for_agent ''u2'' (- 1) w) of
                     Inr ocs \<Rightarrow> ocs | Inl e \<Rightarrow> [])
   in map (\<lambda>oc. dict_get oc ''request_message_id'' PNone) outcomes = [PStr ''m0'']
    \<and> \<not> int (length outcomes) \<le> - 1"
  by code_simp

text \<open>
  C9, amended. For every drained mailbox and every \<open>max_messages\<close> that is not
  negative, a call that returns has examined the first \<open>max_messages\<close> drained messages
  (all of them when there are fewer), in arrival order, with one outcome per examined
  message; the messages beyond the cap have no effect at all: the call returns the same
  outcomes and leaves the same world as on a mailbox that never held them.
\<close>

theorem C9_cap_drops_excess:
  assumes cap: "0 \<le> max_messages"
    and ret: "process_recommendation_requests_for_agent worker_id max_messages w
                = (Inr outcomes, w')"
  shows "let drained = inbox_of (hub w) worker_id;
             examined = take (nat max_messages) drained
         in int (length examined) \<le> max_messages
          \<and> length outcomes = length examined
          \<and> map (\<lambda>oc. dict_get oc ''request_message_id'' PNone) outcomes
              = map (\<lambda>m. PStr (message_id m)) examined
          \<and> process_recommendation_requests_for_agent worker_id max_messages
               (set_inbox worker_id examined w) = (Inr outcomes, w')"
proof -
  let ?drained = "inbox_of (hub w) worker_id"
  let ?examined = "take (nat max_messages) ?drained"
  obtain r w1 where goc: "get_or_create_freigent worker_id w = (r, w1)"
    by (cases "get_or_create_freigent worker_id w")
  let ?w2 = "w1\<lparr>hub := (hub w)\<lparr>inboxes := (inboxes (hub w))(worker_id \<mapsto> [])\<rparr>\<rparr>"
  have slice: "py_slice_to max_messages ?drained = ?examined"
    using cap by (simp add: py_slice_to_def)
  have r: "r = Inr ()" and run: "process_messages worker_id ?examined [] ?w2 = (Inr outcomes, w')"
    using ret by (auto simp: process_unfold goc slice split: sum.splits)
  have len: "int (length ?examined) \<le> max_messages"
    using cap by simp
  have again: "process_recommendation_requests_for_agent worker_id max_messages
                 (set_inbox worker_id ?examined w) = (Inr outcomes, w')"
  proof -
    have "py_slice_to max_messages ?examined = ?examined"
      using cap by (simp add: py_slice_to_def)
    moreover have "(set_inbox worker_id ?examined w1)
                     \<lparr>hub := (hub (set_inbox worker_id ?examined w))
                               \<lparr>inboxes := (inboxes (hub (set_inbox worker_id ?examined w)))
                                             (worker_id \<mapsto> [])\<rparr>\<rparr> = ?w2"
      by (simp add: set_inbox_def)
    moreover have "inbox_of (hub (set_inbox worker_id ?examined w)) worker_id = ?examined"
      by (simp add: set_inbox_def inbox_of_def)
    moreover have "process_recommendation_requests_for_agent worker_id max_messages
                 (set_inbox worker_id ?examined w)
          = process_messages worker_id
              (py_slice_to max_messages
                 (inbox_of (hub (set_inbox worker_id ?examined w)) worker_id)) []
              ((set_inbox worker_id ?examined w1)
                     \<lparr>hub := (hub (set_inbox worker_id ?examined w))
                               \<lparr>inboxes := (inboxes (hub (set_inbox worker_id ?examined w)))
                                             (worker_id \<mapsto> [])\<rparr>\<rparr>)"
      by (simp add: process_unfold get_or_create_freigent_set_inbox goc r)
    ultimately show ?thesis
      using run by simp
  qed
  show ?thesis
    using process_messages_outcomes [OF run] len again by (simp add: Let_def)
qed

text \<open>C9 at a concrete world: three messages, cap 2.\<close>

theorem C9_cap_drops_excess_witness:
  "let w = set_inbox ''u2'' [note_from ''m0'' ''u1'' ''u2'', request_from ''m1'' ''u1'' ''u2'',
                             request_from ''m2'' ''u1'' ''u2''] demo_world;
       (outcomes, w') = process_recommendation_requests_for_agent ''u2'' 2 w
   in (0::int) \<le> 2
    \<and> map (\<lambda>oc. dict_get oc ''status'' PNone) (case outcomes of Inr ocs \<Rightarrow> ocs | Inl e \<Rightarrow> [])
        = [PStr ''ignored'', PStr ''ok'']
    \<and> map (\<lambda>oc. dict_get oc ''request_message_id'' PNone)
          (case outcomes of Inr ocs \<Rightarrow> ocs | Inl e \<Rightarrow> [])
        = [PStr ''m0'', PStr ''m1'']
    \<and> length (inbox_of (hub w') ''u1'') = 1
    \<and> inbox_of (hub w') ''u2'' = []"
proof -
  let ?w = "set_inbox ''u2'' [note_from ''m0'' ''u1'' ''u2'', request_from ''m1'' ''u1'' ''u2'',
                              request_from ''m2'' ''u1'' ''u2''] demo_world"
  obtain outcomes w' where
    run: "process_recommendation_requests_for_agent ''u2'' 2 ?w = (outcomes, w')"
    by (cases "process_recommendation_requests_for_agent ''u2'' 2 ?w")
  have "fst (process_recommendation_requests_for_agent ''u2'' 2 ?w)
          = Inr [ignored_outcome demo_world (note_from ''m0'' ''u1'' ''u2''),
                 ok_outcome (request_from ''m1'' ''u1'' ''u2'')]"
    by code_simp
  then have ocs: "outcomes = Inr [ignored_outcome demo_world (note_from ''m0'' ''u1'' ''u2''),
                                  ok_outcome (request_from ''m1'' ''u1'' ''u2'')]"
    by (simp add: run)
  have "length (inbox_of (hub (snd (process_recommendation_requests_for_agent ''u2'' 2 ?w))) ''u1'') = 1
      \<and> inbox_of (hub (snd (process_recommendation_requests_for_agent ''u2'' 2 ?w))) ''u2'' = []"
    by code_simp
  then have inb: "length (inbox_of (hub w') ''u1'') = 1" "inbox_of (hub w') ''u2'' = []"
    by (simp_all add: run)
  have cap: "(0::int) \<le> 2" by simp
  have st: "map (\<lambda>oc. dict_get oc ''status'' PNone)
              [ignored_outcome demo_world (note_from ''m0'' ''u1'' ''u2''),
               ok_outcome (request_from ''m1'' ''u1'' ''u2'')] = [PStr ''ignored'', PStr ''ok'']"
    by code_simp
  have ids: "map (\<lambda>m. PStr (message_id m)) (take (nat 2) (inbox_of (hub ?w) ''u2''))
               = [PStr ''m0'', PStr ''m1'']"
    by code_simp
  show ?thesis
    using C9_cap_drops_excess [OF cap run [unfolded ocs]] st ids inb
    by (simp add: run ocs Let_def)
qed


section \<open>Orchestrator lemmas\<close>

lemmas eval_defs = demo_defs worker_defs Let_def freigent_auto_search_def
  read_responses_def db_list_helper_agent_ids_def register_agent_def request_payload_def
  product_list_def is_dict_def merged_summary_def eval_nat_numeral

lemma freigent_auto_search_phases:
  "freigent_auto_search user_id query w =
     (case run_to_fan_out user_id query w of
        (Inl e, w4) \<Rightarrow> (Inl e, w4)
      | (Inr (base_res, helper_ids), w4) \<Rightarrow>
          (case process_helpers helper_ids w4 of
             (Inl e, w5) \<Rightarrow> (Inl e, w5)
           | (Inr u, w5) \<Rightarrow> read_responses user_id helper_ids base_res w5))"
proof (cases "db_load_profile (db w) (PStr user_id)")
  case (Inl e)
  then show ?thesis by (simp add: freigent_auto_search_def run_to_fan_out_def)
next
  case (Inr po)
  show ?thesis
  proof (cases po)
    case None
    with Inr show ?thesis by (simp add: freigent_auto_search_def run_to_fan_out_def)
  next
    case (Some profile)
    obtain r1 w1 where g: "get_or_create_freigent user_id w = (r1, w1)"
      by (cases "get_or_create_freigent user_id w")
    show ?thesis
    proof (cases r1)
      case (Inl e)
      with Inr Some g show ?thesis by (simp add: freigent_auto_search_def run_to_fan_out_def)
    next
      case r1: (Inr u)
      obtain base_res w2 where
        gen: "generate_recommendations_json user_id profile (PStr query) w1 = (base_res, w2)"
        by (cases "generate_recommendations_json user_id profile (PStr query) w1")
      obtain r3 w3 where
        reg: "register_helpers (db_list_helper_agent_ids (db w2) user_id) w2 = (r3, w3)"
        by (cases "register_helpers (db_list_helper_agent_ids (db w2) user_id) w2")
      show ?thesis
        using Inr Some g r1 gen reg
        by (cases r3) (simp_all add: freigent_auto_search_def run_to_fan_out_def Let_def)
    qed
  qed
qed

lemma freigent_auto_search_split:
  "freigent_auto_search user_id query w =
     (case run_to_dispatch user_id query w of
        (Inl e, w5) \<Rightarrow> (Inl e, w5)
      | (Inr (base_res, helper_ids), w5) \<Rightarrow> read_responses user_id helper_ids base_res w5)"
proof -
  obtain r4 w4 where f: "run_to_fan_out user_id query w = (r4, w4)"
    by (cases "run_to_fan_out user_id query w")
  show ?thesis
  proof (cases r4)
    case (Inl e)
    with f show ?thesis by (simp add: freigent_auto_search_phases run_to_dispatch_def)
  next
    case (Inr bh)
    obtain base_res helper_ids where bh: "bh = (base_res, helper_ids)" by (cases bh)
    obtain r5 w5 where p: "process_helpers helper_ids w4 = (r5, w5)"
      by (cases "process_helpers helper_ids w4")
    show ?thesis
      using f Inr bh p
      by (cases r5) (simp_all add: freigent_auto_search_phases run_to_dispatch_def)
  qed
qed

lemma collect_responses_result:
  "collect_responses msgs hrs merged = Inr (hrs', merged') \<Longrightarrow>
     hrs' = hrs @ map helper_result_of (filter is_response msgs)
   \<and> merged' = merged @ concat (map (\<lambda>hr. product_list (hr_result hr))
                                   (map helper_result_of (filter is_response msgs)))"
proof (induction msgs arbitrary: hrs merged)
  case Nil
  then show ?case by simp
next
  case (Cons m msgs)
  show ?case
  proof (cases "is_response m")
    case False
    with Cons.prems have "collect_responses msgs hrs merged = Inr (hrs', merged')"
      by (simp add: is_response_def)
    from Cons.IH [OF this] False show ?thesis by simp
  next
    case True
    then obtain d where d: "dict_get (payload m) ''result'' (PDict []) = PDict d"
      using Cons.prems by (auto simp: is_response_def split: pyval.splits)
    with True Cons.prems
    have "collect_responses msgs (hrs @ [\<lparr>hr_agent_id = from_agent_id m, hr_result = d\<rparr>])
            (merged @ product_list d) = Inr (hrs', merged')"
      by (simp add: is_response_def)
    from Cons.IH [OF this] True d show ?thesis
      by (simp add: helper_result_of_def)
  qed
qed

lemma read_responses_result:
  assumes "read_responses user_id helper_ids base_res w = (Inr resp, w')"
  shows "base_res = PDict (base_result resp)
       \<and> base_agent_id resp = user_id
       \<and> helper_agent_ids resp = helper_ids
       \<and> helper_results resp = map helper_result_of (filter is_response (inbox_of (hub w) user_id))
       \<and> merged_products resp =
           product_list (base_result resp)
           @ concat (map (\<lambda>hr. product_list (hr_result hr)) (helper_results resp))
       \<and> merged_summary_for_user resp =
           merged_summary user_id (length (helper_results resp)) helper_ids"
proof -
  obtain base where base: "base_res = PDict base"
    using assms by (cases base_res) (simp_all add: read_responses_def get_inbox_def Let_def)
  obtain hrs merged where
    coll: "collect_responses (inbox_of (hub w) user_id) [] (product_list base) = Inr (hrs, merged)"
    using assms base
    by (auto simp: read_responses_def get_inbox_def Let_def split: sum.splits)
  have resp: "resp = \<lparr>base_agent_id = user_id, helper_agent_ids = helper_ids,
                        base_result = base, helper_results = hrs,
                        merged_products = merged,
                        merged_summary_for_user =
                          merged_summary user_id (length hrs) helper_ids\<rparr>"
    using assms base coll
    by (auto simp: read_responses_def get_inbox_def Let_def split: if_splits)
  show ?thesis
    using collect_responses_result [OF coll] by (simp add: resp base)
qed

lemma register_helpers_frame:
  "register_helpers hids w = (r, w') \<Longrightarrow>
     db w' = db w \<and> llm_calls w' = llm_calls w \<and> FREIGENTS w' = FREIGENTS w"
  by (induction hids arbitrary: w) (auto split: sum.splits option.splits)

lemma run_to_fan_out_Inr:
  assumes "run_to_fan_out user_id query w = (Inr (base_res, helper_ids), w4)"
  shows "\<exists>profile w3.
           db_load_profile (db w) (PStr user_id) = Inr (Some profile)
         \<and> helper_ids = db_list_helper_agent_ids (db w) user_id
         \<and> w4 = send_requests user_id query helper_ids w3
         \<and> llm_calls w3 = llm_calls w @ [(user_id, profile, PStr query)]
         \<and> base_res = llm_reply w (length (llm_calls w)) profile (PStr query)"
proof -
  from assms obtain profile where p: "db_load_profile (db w) (PStr user_id) = Inr (Some profile)"
    by (auto simp: run_to_fan_out_def split: sum.splits option.splits)
  obtain r1 w1 where g: "get_or_create_freigent user_id w = (r1, w1)"
    by (cases "get_or_create_freigent user_id w")
  have w1: "db w1 = db w" "llm_calls w1 = llm_calls w" "llm_reply w1 = llm_reply w"
    using get_or_create_freigent_frame [of user_id w] by (simp_all add: g)
  let ?w2 = "snd (generate_recommendations_json user_id profile (PStr query) w1)"
  let ?hids = "db_list_helper_agent_ids (db w) user_id"
  have w2: "db ?w2 = db w" "llm_calls ?w2 = llm_calls w @ [(user_id, profile, PStr query)]"
    by (simp_all add: generate_recommendations_json_def w1)
  obtain r3 w3 where reg: "register_helpers ?hids ?w2 = (r3, w3)"
    by (cases "register_helpers ?hids ?w2")
  have w3: "llm_calls w3 = llm_calls w @ [(user_id, profile, PStr query)]"
    using register_helpers_frame [OF reg] w2 by simp
  from assms p g reg w2(1)
  have "helper_ids = ?hids \<and> w4 = send_requests user_id query helper_ids w3
        \<and> base_res = llm_reply w (length (llm_calls w)) profile (PStr query)"
    by (auto simp: run_to_fan_out_def Let_def split_beta generate_recommendations_json_def w1
             split: sum.splits)
  with p w3 show ?thesis by blast
qed

lemma run_to_dispatch_no_helpers:
  assumes "db_list_helper_agent_ids (db w) user_id = []"
    and "run_to_dispatch user_id query w = (Inr (base_res, helper_ids), w5)"
  shows "helper_ids = [] \<and> hub w5 = hub w"
proof -
  obtain r4 w4 where f: "run_to_fan_out user_id query w = (r4, w4)"
    by (cases "run_to_fan_out user_id query w")
  with assms(2) have f': "run_to_fan_out user_id query w = (Inr (base_res, helper_ids), w4)"
    and p: "process_helpers helper_ids w4 = (Inr (), w5)"
    by (auto simp: run_to_dispatch_def split: sum.splits prod.splits)
  from run_to_fan_out_Inr [OF f'] assms(1) have ids: "helper_ids = []" by auto
  from assms(1) f' have "hub w4 = hub w"
    by (auto simp: run_to_fan_out_def Let_def split_beta generate_frame
          get_or_create_freigent_frame generate_recommendations_json_def
        split: sum.splits option.splits prod.splits)
  with p ids show ?thesis by simp
qed

section \<open>Claims about the orchestrator\<close>

text \<open>
  C3. Whenever a run returns a response, its \<open>merged_products\<close> is the product list of
  the base result followed by the product lists of the helper results, in the order
  of \<open>helper_results\<close>, concatenated as they are: nothing is removed, merged or
  reordered. The helper results are the \<open>recommendation_response\<close> messages of the base
  mailbox in the order in which the drain of step 5 returned them.
\<close>

theorem C3_merged_products_concatenation:
  assumes "freigent_auto_search user_id query w = (Inr resp, w')"
  shows "merged_products resp =
           product_list (base_result resp)
           @ concat (map (\<lambda>hr. product_list (hr_result hr)) (helper_results resp))
       \<and> helper_results resp =
           map helper_result_of
             (filter is_response (inbox_of (hub (snd (run_to_dispatch user_id query w))) user_id))"
proof -
  obtain r w5 where s: "run_to_dispatch user_id query w = (r, w5)"
    by (cases "run_to_dispatch user_id query w")
  from assms obtain base_res helper_ids where
    "read_responses user_id helper_ids base_res w5 = (Inr resp, w')"
    by (auto simp: freigent_auto_search_split s split: sum.splits)
  from read_responses_result [OF this] show ?thesis
    by (simp add: s)
qed

text \<open>
  C3 at a concrete world: base \<open>u1\<close> and one helper \<open>u2\<close>.
\<close>

theorem C3_merged_products_concatenation_witness:
  "case fst (freigent_auto_search ''u1'' ''tea'' demo_world) of
     Inr resp \<Rightarrow>
       product_list (base_result resp) = [PDict [(''name'', PStr ''Ann'')]]
       \<and> map (\<lambda>hr. (hr_agent_id hr, product_list (hr_result hr))) (helper_results resp)
           = [(''u2'', [PDict [(''name'', PStr ''Ann+'')]])]
       \<and> merged_products resp = [PDict [(''name'', PStr ''Ann'')], PDict [(''name'', PStr ''Ann+'')]]
   | Inl e \<Rightarrow> False"
proof -
  obtain r w' where run: "freigent_auto_search ''u1'' ''tea'' demo_world = (r, w')"
    by (cases "freigent_auto_search ''u1'' ''tea'' demo_world")
  have ev: "case fst (freigent_auto_search ''u1'' ''tea'' demo_world) of
          Inr resp \<Rightarrow>
            product_list (base_result resp) = [PDict [(''name'', PStr ''Ann'')]]
            \<and> map (\<lambda>hr. (hr_agent_id hr, product_list (hr_result hr))) (helper_results resp)
                = [(''u2'', [PDict [(''name'', PStr ''Ann+'')]])]
        | Inl e \<Rightarrow> False"
    by (simp add: eval_defs)
  then obtain resp where r: "r = Inr resp"
    using run by (cases r) simp_all
  from ev have b: "product_list (base_result resp) = [PDict [(''name'', PStr ''Ann'')]]"
    and h: "map (\<lambda>hr. (hr_agent_id hr, product_list (hr_result hr))) (helper_results resp)
              = [(''u2'', [PDict [(''name'', PStr ''Ann+'')]])]"
    by (simp_all add: run r)
  have "map (\<lambda>hr. product_list (hr_result hr)) (helper_results resp)
          = map snd (map (\<lambda>hr. (hr_agent_id hr, product_list (hr_result hr)))
                       (helper_results resp))"
    by (simp add: comp_def)
  then have pl: "map (\<lambda>hr. product_list (hr_result hr)) (helper_results resp)
                   = [[PDict [(''name'', PStr ''Ann+'')]]]"
    by (simp only: h) simp
  have "merged_products resp = [PDict [(''name'', PStr ''Ann'')], PDict [(''name'', PStr ''Ann+'')]]"
    using C3_merged_products_concatenation [OF run [unfolded r]]
    by (simp only: b pl) simp
  with b h show ?thesis
    by (simp add: run r)
qed


text \<open>
  C6 as stated fails: with no peer at all, a \<open>recommendation_response\<close> that is already
  waiting in the mailbox of the base becomes a helper result and its products are merged.
\<close>

theorem C6_pending_response_counterexample:
  "let w = set_inbox ''u1'' [response_from ''m0'' ''u7'' ''u1''] (demo_world\<lparr>db := solo_db\<rparr>)
   in db_list_helper_agent_ids (db w) ''u1'' = []
    \<and> (case fst (freigent_auto_search ''u1'' ''tea'' w) of
          Inr resp \<Rightarrow>
            helper_agent_ids resp = []
            \<and> map hr_agent_id (helper_results resp) = [''u7'']
            \<and> product_list (base_result resp) = [PDict [(''name'', PStr ''Ann'')]]
            \<and> merged_products resp
                = [PDict [(''name'', PStr ''Ann'')], PDict [(''name'', PStr ''lamp'')]]
        | Inl e \<Rightarrow> False)"
  by (simp add: eval_defs solo_db_def response_from_def)

text \<open>
  C6, amended. When peer discovery returns no id and no \<open>recommendation_response\<close> is
  waiting in the mailbox of the base, a run that returns has \<open>helper_agent_ids = []\<close>,
  \<open>helper_results = []\<close>, \<open>merged_products\<close> equal to the product list of the base result
  (its \<open>products\<close> entry when that is a list, empty otherwise), and the summary ends with
  \<open>0 helper Freigent(s): none.\<close>
\<close>

theorem C6_no_peers_nothing_pending:
  assumes none: "db_list_helper_agent_ids (db w) user_id = []"
    and quiet: "filter is_response (inbox_of (hub w) user_id) = []"
    and ret: "freigent_auto_search user_id query w = (Inr resp, w')"
  shows "helper_agent_ids resp = []
       \<and> helper_results resp = []
       \<and> merged_products resp = product_list (base_result resp)
       \<and> merged_summary_for_user resp =
           ''This response combines the base Freigent '' @ [CHR 39] @ user_id @ [CHR 39]
           @ '' recommendations with 0 helper Freigent(s): none.''"
proof -
  obtain r w5 where s: "run_to_dispatch user_id query w = (r, w5)"
    by (cases "run_to_dispatch user_id query w")
  from ret obtain base_res helper_ids where
    r: "r = Inr (base_res, helper_ids)"
    and rd: "read_responses user_id helper_ids base_res w5 = (Inr resp, w')"
    by (auto simp: freigent_auto_search_split s split: sum.splits)
  from run_to_dispatch_no_helpers [OF none s [unfolded r]]
  have ids: "helper_ids = []" and hub: "hub w5 = hub w" by simp_all
  have zero: "str_of_nat 0 = ''0''" by code_simp
  from read_responses_result [OF rd] show ?thesis
    by (simp add: ids hub quiet merged_summary_def zero)
qed

text \<open>
  C6 at a concrete world: no peer, one unrelated note waiting.
\<close>

theorem C6_no_peers_nothing_pending_witness:
  "let w = set_inbox ''u1'' [note_from ''m0'' ''u7'' ''u1''] (demo_world\<lparr>db := solo_db\<rparr>)
   in db_list_helper_agent_ids (db w) ''u1'' = []
    \<and> filter is_response (inbox_of (hub w) ''u1'') = []
    \<and> (case fst (freigent_auto_search ''u1'' ''tea'' w) of
          Inr resp \<Rightarrow>
            helper_agent_ids resp = []
            \<and> helper_results resp = []
            \<and> product_list (base_result resp) = [PDict [(''name'', PStr ''Ann'')]]
            \<and> merged_products resp = [PDict [(''name'', PStr ''Ann'')]]
            \<and> merged_summary_for_user resp =
                ''This response combines the base Freigent '' @ [CHR 39] @ ''u1'' @ [CHR 39]
                @ '' recommendations with 0 helper Freigent(s): none.''
        | Inl e \<Rightarrow> False)"
proof -
  let ?w = "set_inbox ''u1'' [note_from ''m0'' ''u7'' ''u1''] (demo_world\<lparr>db := solo_db\<rparr>)"
  obtain r w' where run: "freigent_auto_search ''u1'' ''tea'' ?w = (r, w')"
    by (cases "freigent_auto_search ''u1'' ''tea'' ?w")
  have none: "db_list_helper_agent_ids (db ?w) ''u1'' = []"
    by (simp add: eval_defs solo_db_def)
  have quiet: "filter is_response (inbox_of (hub ?w) ''u1'') = []"
    by (simp add: eval_defs solo_db_def is_response_def)
  have ev: "case fst (freigent_auto_search ''u1'' ''tea'' ?w) of
          Inr resp \<Rightarrow> product_list (base_result resp) = [PDict [(''name'', PStr ''Ann'')]]
        | Inl e \<Rightarrow> False"
    by (simp add: eval_defs solo_db_def)
  then obtain resp where r: "r = Inr resp"
    using run by (cases r) simp_all
  show ?thesis
    using C6_no_peers_nothing_pending [OF none quiet run [unfolded r]] none quiet ev
    by (simp add: run r Let_def)
qed

text \<open>
  C7. When the base profile is absent the run raises the HTTP error 400 that reports
  the missing profile, returns no response, and leaves the world as it was: the hub
  (agents, mailboxes, ids drawn), the client cache and the record of model calls are
  unchanged, so no recommendation call was made and no peer was registered or sent a
  message.
\<close>

theorem C7_missing_base_profile_aborts:
  assumes "db_load_profile (db w) (PStr user_id) = Inr None"
  shows "freigent_auto_search user_id query w
           = (Inl (HTTPException 400 (no_profile_detail user_id)), w)"
  using assms by (simp add: freigent_auto_search_def)

text \<open>
  C7 at a concrete world: \<open>u9\<close> has no profile.
\<close>

theorem C7_missing_base_profile_aborts_witness:
  "db_load_profile (db demo_world) (PStr ''u9'') = Inr None
   \<and> freigent_auto_search ''u9'' ''tea'' demo_world
       = (Inl (HTTPException 400 (no_profile_detail ''u9'')), demo_world)"
proof -
  have h: "db_load_profile (db demo_world) (PStr ''u9'') = Inr None"
    by (simp add: demo_defs db_load_profile_def sqlite_bind_def)
  show ?thesis
    using C7_missing_base_profile_aborts [OF h, of "''tea''"] h by simp
qed

end
